theory Spec2Isabelle
  imports Main
begin

section \<open>The state of the \<open>App\<close> component (src/App.tsx)\<close>

text \<open>
  \<open>interface ImageState { data: string; mimeType: string }\<close> (lines 6-9) and the five
  \<open>useState\<close> cells of \<open>App\<close> (lines 37-41). A \<open>T | null\<close> cell is a \<open>T option\<close>.
\<close>

record ImageState =
  data :: string
  mimeType :: string

record AppState =
  originalImage :: "ImageState option"
  editedImage :: "string option"
  prompt :: string
  isLoading :: bool
  error :: "string option"

text \<open>The initial values given to \<open>useState\<close>.\<close>

definition initialState :: AppState where
  "initialState =
     \<lparr>originalImage = None, editedImage = None, prompt = [], isLoading = False, error = None\<rparr>"

text \<open>
  The browser's \<open>File\<close> object, as far as the component reads it: only \<open>file.type\<close> is
  inspected (line 48); the name stands for the rest of the object.
\<close>

record File =
  name :: string
  type :: string

text \<open>
  A value thrown by an awaited call: either an instance of \<open>Error\<close>, which carries a
  \<open>message\<close>, or anything else (line 79 tells the two apart with \<open>instanceof\<close>).
\<close>

datatype thrown = Error (message: string) | NotAnError

text \<open>
  The two functions imported from \<open>./services/geminiService\<close> (line 2) are parameters of
  the model. Each returns a promise, which settles with a value (\<open>Inr\<close>) or with a
  thrown value (\<open>Inl\<close>):
  \<^item> \<open>fileToBase64(file)\<close> resolves to \<open>{ base64Data, mimeType }\<close>, a pair here;
  \<^item> \<open>editImageWithGemini(data, mimeType, prompt)\<close> resolves to a base64 string; its
    three arguments are an \<open>EditCall\<close>, in the order of the call.
\<close>

type_synonym ReadOutcome = "thrown + (string \<times> string)"
type_synonym EditCall = "string \<times> string \<times> string"
type_synonym EditOutcome = "thrown + string"

text \<open>\<open>String.prototype.startsWith\<close>.\<close>

definition startsWith :: "string \<Rightarrow> string \<Rightarrow> bool" where
  "startsWith s p = (take (length p) s = p)"

section \<open>\<open>handleImageUpload\<close> (lines 45-62)\<close>

text \<open>
  \<open>event.target.files?.[0]\<close>: the file list may be absent (\<open>null\<close>) or empty, and then
  there is no file.
\<close>

definition firstFile :: "File list option \<Rightarrow> File option" where
  "firstFile files = (case files of None \<Rightarrow> None | Some [] \<Rightarrow> None | Some (f # _) \<Rightarrow> Some f)"

text \<open>
  The handler up to its \<open>await\<close> (lines 46-55): the state it leaves, and the file whose
  read it has started, if any.
\<close>

definition handleImageUpload_start :: "File list option \<Rightarrow> AppState \<Rightarrow> AppState \<times> File option" where
  "handleImageUpload_start files s =
     (case firstFile files of
        None \<Rightarrow> (s, None)
      | Some file \<Rightarrow>
          if \<not> startsWith (type file) ''image/''
          then (s\<lparr>error := Some ''Please upload a valid image file (PNG, JPG, WEBP, etc.).''\<rparr>, None)
          else (s\<lparr>error := None, editedImage := None\<rparr>, Some file))"

text \<open>
  The handler after the \<open>await\<close> (lines 55-60), run on the state of that moment: the
  \<open>try\<close> branch stores the image, the \<open>catch\<close> branch takes every thrown value
  (\<open>console.error\<close> only logs it).
\<close>

definition handleImageUpload_settle :: "ReadOutcome \<Rightarrow> AppState \<Rightarrow> AppState" where
  "handleImageUpload_settle outcome s =
     (case outcome of
        Inr (base64Data, mimeType') \<Rightarrow>
          s\<lparr>originalImage := Some \<lparr>data = base64Data, mimeType = mimeType'\<rparr>\<rparr>
      | Inl err \<Rightarrow> s\<lparr>error := Some ''Failed to process image file.''\<rparr>)"

text \<open>
  One whole run of the handler, nothing else happening in between. The result is how
  the handler's own promise settles: \<open>Inr\<close> with the final state when it returns, \<open>Inl\<close>
  if a thrown value escaped it (no path of the source lets one escape).
\<close>

definition handleImageUpload :: "(File \<Rightarrow> ReadOutcome) \<Rightarrow> File list option \<Rightarrow> AppState \<Rightarrow> thrown + AppState" where
  "handleImageUpload fileToBase64 files s =
     (case handleImageUpload_start files s of
        (s1, None) \<Rightarrow> Inr s1
      | (s1, Some file) \<Rightarrow> Inr (handleImageUpload_settle (fileToBase64 file) s1))"

section \<open>\<open>handleSubmit\<close> (lines 64-83)\<close>

text \<open>
  The handler up to its \<open>await\<close> (lines 65-76): the guard, the three setters, and the
  call it issues, if any. \<open>!prompt\<close> holds of the empty string only, \<open>!originalImage\<close>
  of \<open>null\<close> only. \<open>editCall\<close> is the argument list of line 76, read past the guard, where
  \<open>originalImage\<close> is not \<open>null\<close>.
\<close>

definition editCall :: "AppState \<Rightarrow> EditCall" where
  "editCall s = (data (the (originalImage s)), mimeType (the (originalImage s)), prompt s)"

definition handleSubmit_start :: "AppState \<Rightarrow> AppState \<times> EditCall option" where
  "handleSubmit_start s =
     (if prompt s = [] \<or> originalImage s = None
      then (s\<lparr>error := Some ''Please provide an image and a prompt.''\<rparr>, None)
      else (s\<lparr>error := None, isLoading := True, editedImage := None\<rparr>, Some (editCall s)))"

text \<open>
  The handler after the \<open>await\<close> (lines 76-82), run on the state of that moment:
  \<open>try\<close>, \<open>catch\<close>, then \<open>finally\<close>.
\<close>

definition handleSubmit_settle :: "EditOutcome \<Rightarrow> AppState \<Rightarrow> AppState" where
  "handleSubmit_settle outcome s =
     (let s1 = (case outcome of
                  Inr newImageBase64 \<Rightarrow>
                    s\<lparr>editedImage := Some (''data:image/png;base64,'' @ newImageBase64)\<rparr>
                | Inl err \<Rightarrow>
                    s\<lparr>error := Some (case err of Error m \<Rightarrow> m
                                             | NotAnError \<Rightarrow> ''An unknown error occurred.'')\<rparr>)
      in s1\<lparr>isLoading := False\<rparr>)"

text \<open>
  One whole run of the handler, nothing else happening in between: the final state and
  the calls made to the remote service, in order.
\<close>

definition handleSubmit :: "(EditCall \<Rightarrow> EditOutcome) \<Rightarrow> AppState \<Rightarrow> thrown + (AppState \<times> EditCall list)" where
  "handleSubmit editImageWithGemini s =
     (case handleSubmit_start s of
        (s1, None) \<Rightarrow> Inr (s1, [])
      | (s1, Some call) \<Rightarrow> Inr (handleSubmit_settle (editImageWithGemini call) s1, [call]))"

section \<open>\<open>handleReset\<close> (lines 85-94)\<close>

text \<open>
  The handler also writes through \<open>fileInputRef\<close>: \<open>fileInputRef.current\<close> is \<open>null\<close>
  (\<open>None\<close>) while the file input is not mounted, and otherwise the input element, of
  which only \<open>value\<close> matters.
\<close>

definition handleReset :: "AppState \<times> string option \<Rightarrow> AppState \<times> string option" where
  "handleReset p =
     (case p of (s, fileInputRef) \<Rightarrow>
        (s\<lparr>originalImage := None, editedImage := None, prompt := [], error := None,
           isLoading := False\<rparr>,
         (case fileInputRef of None \<Rightarrow> None | Some v \<Rightarrow> Some [])))"

section \<open>What the component renders (lines 12-33 and 96-172)\<close>

text \<open>
  \<open>ImageDisplay\<close>: the spinner while loading, else the image when \<open>imageUrl\<close> is truthy
  (neither \<open>null\<close> nor empty), else the placeholder unless \<open>isOriginal\<close>.
\<close>

datatype pane = Spinner | Img string | Placeholder | Nothing

definition ImageDisplay :: "string option \<Rightarrow> bool \<Rightarrow> bool \<Rightarrow> pane" where
  "ImageDisplay imageUrl loading isOriginal =
     (if loading then Spinner
      else if imageUrl \<noteq> None \<and> imageUrl \<noteq> Some [] then Img (the imageUrl)
      else if \<not> isOriginal then Placeholder
      else Nothing)"

text \<open>
  The file input is rendered while there is no original image (line 106); the two
  panes, the form and its buttons once there is one (lines 128 and 139).
\<close>

definition uploadRendered :: "AppState \<Rightarrow> bool" where
  "uploadRendered s = (originalImage s = None)"

definition formRendered :: "AppState \<Rightarrow> bool" where
  "formRendered s = (originalImage s \<noteq> None)"

text \<open>
  The error element of lines 125 and 134, \<open>{error && ...}\<close>, present in both branches
  of the page: it shows the error string when that is truthy (neither \<open>null\<close> nor
  empty), and nothing otherwise.
\<close>

definition errorShown :: "AppState \<Rightarrow> string option" where
  "errorShown s = (if error s \<noteq> None \<and> error s \<noteq> Some [] then error s else None)"

text \<open>The "Edited Image" pane of line 132.\<close>

definition editedPane :: "AppState \<Rightarrow> pane option" where
  "editedPane s =
     (if originalImage s = None then None
      else Some (ImageDisplay (editedImage s) (isLoading s) False))"

text \<open>The \<open>disabled\<close> attributes of the prompt input (line 148) and of the two buttons
  (lines 153 and 162).\<close>

definition promptInputDisabled :: "AppState \<Rightarrow> bool" where
  "promptInputDisabled s = isLoading s"

definition generateDisabled :: "AppState \<Rightarrow> bool" where
  "generateDisabled s = (isLoading s \<or> prompt s = [])"

definition resetDisabled :: "AppState \<Rightarrow> bool" where
  "resetDisabled s = isLoading s"

section \<open>The component as an event-driven system\<close>

text \<open>
  The handlers run on one thread; an \<open>await\<close> hands control back, and other events may
  be handled before the awaited promise settles. The system is the component's state
  together with the promises still pending: the files being read and the calls to the
  remote service in flight.
\<close>

record System =
  app :: AppState
  pendingReads :: "File list"
  pendingEdits :: "EditCall list"

definition initialSystem :: System where
  "initialSystem = \<lparr>app = initialState, pendingReads = [], pendingEdits = []\<rparr>"

definition removeAt :: "nat \<Rightarrow> 'a list \<Rightarrow> 'a list" where
  "removeAt i xs = take i xs @ drop (Suc i) xs"

text \<open>
  What can happen next:
  \<^item> the file input changes (\<open>onChange={handleImageUpload}\<close>, line 112);
  \<^item> a pending read settles, with any outcome;
  \<^item> the user edits the prompt (\<open>onChange\<close>, line 145);
  \<^item> the form is submitted (\<open>onSubmit={handleSubmit}\<close>, line 141), by a click on the
    Generate button or from the prompt input (the Enter key);
  \<^item> a call in flight settles, with any outcome;
  \<^item> the Reset button is clicked (\<open>onClick={handleReset}\<close>, line 161).
  The user reaches a control only while it is rendered and not disabled, and the
  component is rendered again, from the new state, before the next event is handled.
  A browser does not submit a form from a text input while the form's submit button is
  disabled; \<open>PromptEnter\<close> is allowed here whenever the prompt input itself is enabled,
  also with an empty prompt, which only adds runs to the system (the handler's own guard
  then answers).
\<close>

datatype event =
    UploadChange "File list option"
  | ReadSettles nat ReadOutcome
  | PromptChange string
  | GenerateClick
  | PromptEnter
  | EditSettles nat EditOutcome
  | ResetClick

text \<open>The form's \<open>onSubmit\<close>: the handler runs to its \<open>await\<close>, and the call it issued, if
  any, is in flight.\<close>

definition submit :: "System \<Rightarrow> System" where
  "submit sys =
     (case handleSubmit_start (app sys) of
        (s1, issued) \<Rightarrow>
          sys\<lparr>app := s1,
              pendingEdits := pendingEdits sys @ (case issued of None \<Rightarrow> [] | Some call \<Rightarrow> [call])\<rparr>)"

text \<open>
  \<open>fire e sys\<close> is \<open>None\<close> when event \<open>e\<close> cannot happen in \<open>sys\<close>. While the Reset
  button is rendered the file input is not, so \<open>handleReset\<close> finds
  \<open>fileInputRef.current\<close> to be \<open>null\<close>.
\<close>

fun fire :: "event \<Rightarrow> System \<Rightarrow> System option" where
  "fire (UploadChange files) sys =
     (if uploadRendered (app sys)
      then (case handleImageUpload_start files (app sys) of
              (s1, started) \<Rightarrow>
                Some (sys\<lparr>app := s1,
                          pendingReads := pendingReads sys
                            @ (case started of None \<Rightarrow> [] | Some file \<Rightarrow> [file])\<rparr>))
      else None)"
| "fire (ReadSettles i outcome) sys =
     (if i < length (pendingReads sys)
      then Some (sys\<lparr>app := handleImageUpload_settle outcome (app sys),
                     pendingReads := removeAt i (pendingReads sys)\<rparr>)
      else None)"
| "fire (PromptChange v) sys =
     (if formRendered (app sys) \<and> \<not> promptInputDisabled (app sys)
      then Some (sys\<lparr>app := (app sys)\<lparr>prompt := v\<rparr>\<rparr>)
      else None)"
| "fire GenerateClick sys =
     (if formRendered (app sys) \<and> \<not> generateDisabled (app sys) then Some (submit sys) else None)"
| "fire PromptEnter sys =
     (if formRendered (app sys) \<and> \<not> promptInputDisabled (app sys) then Some (submit sys) else None)"
| "fire (EditSettles i outcome) sys =
     (if i < length (pendingEdits sys)
      then Some (sys\<lparr>app := handleSubmit_settle outcome (app sys),
                     pendingEdits := removeAt i (pendingEdits sys)\<rparr>)
      else None)"
| "fire ResetClick sys =
     (if formRendered (app sys) \<and> \<not> resetDisabled (app sys)
      then Some (sys\<lparr>app := fst (handleReset (app sys, None))\<rparr>)
      else None)"

text \<open>A run: the events of a list, one after the other, each from the state the one
  before has left.\<close>

fun run :: "event list \<Rightarrow> System \<Rightarrow> System option" where
  "run [] sys = Some sys"
| "run (e # es) sys = (case fire e sys of None \<Rightarrow> None | Some sys' \<Rightarrow> run es sys')"

text \<open>The invariant of the system: a call is in flight exactly while the loading flag
  is set, and then it is the only one.\<close>

definition oneInFlight :: "System \<Rightarrow> bool" where
  "oneInFlight sys = (length (pendingEdits sys) = (if isLoading (app sys) then 1 else 0))"

text \<open>A second invariant: while the loading flag is set there is an original image,
  so the two panes are on the page.\<close>

definition loadingHasImage :: "System \<Rightarrow> bool" where
  "loadingHasImage sys = (isLoading (app sys) \<longrightarrow> originalImage (app sys) \<noteq> None)"

section \<open>Example values\<close>

definition pngFile :: File where
  "pngFile = \<lparr>name = ''cat.png'', type = ''image/png''\<rparr>"

definition jpgFile :: File where
  "jpgFile = \<lparr>name = ''dog.jpg'', type = ''image/jpeg''\<rparr>"

definition textFile :: File where
  "textFile = \<lparr>name = ''notes.txt'', type = ''text/plain''\<rparr>"

definition catImage :: ImageState where
  "catImage = \<lparr>data = ''QUJD'', mimeType = ''image/png''\<rparr>"

definition readyState :: AppState where
  "readyState =
     \<lparr>originalImage = Some catImage, editedImage = Some ''data:image/png;base64,b2xk'',
      prompt = ''Add a retro filter'', isLoading = False, error = Some ''stale''\<rparr>"

definition loadingSystem :: System where
  "loadingSystem =
     \<lparr>app = \<lparr>originalImage = Some catImage, editedImage = None,
             prompt = ''Add a retro filter'', isLoading = True, error = None\<rparr>,
      pendingReads = [],
      pendingEdits = [(''QUJD'', ''image/png'', ''Add a retro filter'')]\<rparr>"

definition uploadThenGenerate :: "event list" where
  "uploadThenGenerate =
     [UploadChange (Some [pngFile]), ReadSettles 0 (Inr (''QUJD'', ''image/png'')),
      PromptChange ''Add a retro filter'', GenerateClick]"

text \<open>
  Two files are chosen one after the other; the second is read first, and the read of
  the first fails while the call to the remote service is in flight.
\<close>

definition lateReadFailure :: "event list" where
  "lateReadFailure =
     [UploadChange (Some [pngFile]), UploadChange (Some [jpgFile]),
      ReadSettles 1 (Inr (''REVG'', ''image/jpeg'')),
      PromptChange ''Add a retro filter'', GenerateClick,
      ReadSettles 0 (Inl (Error ''aborted'')), EditSettles 0 (Inr ''bmV3'')]"

section \<open>Properties of the handlers\<close>

text \<open>
  C1. In every state whose prompt is empty or whose original image is unset, the
  submit handler returns after setting the error to
  'Please provide an image and a prompt.': it makes no call to the remote service, and
  the original image, the edited image, the prompt and the loading flag stay as they
  were.
\<close>

theorem handleSubmit_guard:
  assumes "prompt s = [] \<or> originalImage s = None"
  shows "handleSubmit editImageWithGemini s =
           Inr (s\<lparr>error := Some ''Please provide an image and a prompt.''\<rparr>, [])"
  using assms by (simp add: handleSubmit_def handleSubmit_start_def)

theorem handleSubmit_guard_witness:
  "(prompt (readyState\<lparr>prompt := []\<rparr>) = [] \<or> originalImage (readyState\<lparr>prompt := []\<rparr>) = None)
   \<and> handleSubmit (\<lambda>c. Inr ''bmV3'') (readyState\<lparr>prompt := []\<rparr>) =
        Inr (\<lparr>originalImage = Some catImage, editedImage = Some ''data:image/png;base64,b2xk'',
              prompt = [], isLoading = False,
              error = Some ''Please provide an image and a prompt.''\<rparr>, [])
   \<and> (prompt initialState = [] \<or> originalImage initialState = None)
   \<and> handleSubmit (\<lambda>c. Inr ''bmV3'') initialState =
        Inr (initialState\<lparr>error := Some ''Please provide an image and a prompt.''\<rparr>, [])"
  using handleSubmit_guard [of "readyState\<lparr>prompt := []\<rparr>" "\<lambda>c. Inr ''bmV3''"]
    handleSubmit_guard [of initialState "\<lambda>c. Inr ''bmV3''"]
  by (simp add: readyState_def initialState_def)

text \<open>
  C2. For every uploaded file whose MIME type does not start with 'image/', the upload
  handler sets the error to 'Please upload a valid image file (PNG, JPG, WEBP, etc.).'
  and returns: the original image is not set, and the edited image, the prompt and the
  loading flag stay as they were.
\<close>

theorem handleImageUpload_rejects_non_image:
  assumes "\<not> startsWith (type file) ''image/''"
  shows "handleImageUpload fileToBase64 (Some (file # rest)) s =
           Inr (s\<lparr>error := Some ''Please upload a valid image file (PNG, JPG, WEBP, etc.).''\<rparr>)"
  using assms by (simp add: handleImageUpload_def handleImageUpload_start_def firstFile_def)

theorem handleImageUpload_rejects_non_image_witness:
  "\<not> startsWith (type textFile) ''image/''
   \<and> handleImageUpload (\<lambda>f. Inr (''QUJD'', ''image/png'')) (Some [textFile]) readyState =
       Inr \<lparr>originalImage = Some catImage, editedImage = Some ''data:image/png;base64,b2xk'',
            prompt = ''Add a retro filter'', isLoading = False,
            error = Some ''Please upload a valid image file (PNG, JPG, WEBP, etc.).''\<rparr>"
  using handleImageUpload_rejects_non_image
    [of textFile "\<lambda>f. Inr (''QUJD'', ''image/png'')" "[]" readyState]
  by (simp add: textFile_def startsWith_def readyState_def)

text \<open>
  C10. A change event of the file input that carries no file (the file list is absent
  or empty) leaves every piece of state as it was, and starts no read.
\<close>

theorem handleImageUpload_no_file:
  assumes "files = None \<or> files = Some []"
  shows "handleImageUpload_start files s = (s, None)
       \<and> handleImageUpload fileToBase64 files s = Inr s"
  using assms by (auto simp: handleImageUpload_def handleImageUpload_start_def firstFile_def)

theorem handleImageUpload_no_file_witness:
  "((Some [] :: File list option) = None \<or> (Some [] :: File list option) = Some [])
   \<and> handleImageUpload (\<lambda>f. Inr (''bmV3'', ''image/png'')) (Some []) readyState = Inr readyState
   \<and> handleImageUpload (\<lambda>f. Inr (''bmV3'', ''image/png'')) None readyState = Inr readyState"
  using handleImageUpload_no_file [of "Some []" readyState "\<lambda>f. Inr (''bmV3'', ''image/png'')"]
    handleImageUpload_no_file [of None readyState "\<lambda>f. Inr (''bmV3'', ''image/png'')"]
  by simp



text \<open>
  C7. The call to the remote service carries the stored original image's base64 data,
  its MIME type and the current prompt, in this order and as they are stored.
\<close>

theorem handleSubmit_forwards_request:
  assumes "prompt s \<noteq> []" and "originalImage s = Some img"
  shows "snd (handleSubmit_start s) = Some (data img, mimeType img, prompt s)
       \<and> (\<exists>s'. handleSubmit editImageWithGemini s = Inr (s', [(data img, mimeType img, prompt s)]))"
  using assms by (simp add: handleSubmit_def handleSubmit_start_def editCall_def)

theorem handleSubmit_forwards_request_witness:
  "prompt readyState \<noteq> [] \<and> originalImage readyState = Some catImage
   \<and> snd (handleSubmit_start readyState) = Some (''QUJD'', ''image/png'', ''Add a retro filter'')
   \<and> (\<exists>s'. handleSubmit (\<lambda>c. Inr ''bmV3'') readyState =
              Inr (s', [(''QUJD'', ''image/png'', ''Add a retro filter'')]))"
  using handleSubmit_forwards_request [of readyState catImage "\<lambda>c. Inr ''bmV3''"]
  by (simp add: readyState_def catImage_def)

text \<open>
  C5. Nothing is retried: one run of the submit handler past its guard (the prompt is
  not empty, there is an original image) calls the remote service exactly once, whatever
  the outcome of that call.
\<close>

theorem handleSubmit_calls_once:
  assumes "prompt s \<noteq> []" and "originalImage s \<noteq> None"
  shows "\<exists>s' calls. handleSubmit editImageWithGemini s = Inr (s', calls) \<and> length calls = 1"
  using assms by (simp add: handleSubmit_def handleSubmit_start_def)

theorem handleSubmit_calls_once_witness:
  "prompt readyState \<noteq> [] \<and> originalImage readyState \<noteq> None
   \<and> (\<exists>s' calls. handleSubmit (\<lambda>c. Inl (Error ''offline'')) readyState = Inr (s', calls)
         \<and> length calls = 1)"
  using handleSubmit_calls_once [of readyState "\<lambda>c. Inl (Error ''offline'')"]
  by (simp add: readyState_def)

text \<open>
  C4. Every failure is caught and stored in the error cell of the state, and none leaves
  the handler: a failed read of the uploaded file sets the error to
  'Failed to process image file.'; a remote call that fails with an \<open>Error\<close> sets it to
  that \<open>Error\<close>'s message, and one that fails with anything else to
  'An unknown error occurred.'. These writes are the handlers' own, made when the awaited
  call settles, whatever the state is then. The page shows the error string exactly when
  it is not empty: the two fixed messages always, the message of an \<open>Error\<close> unless it is
  the empty string. Both handlers return normally (\<open>Inr\<close>) for every input and every
  behaviour of the two services.
\<close>

theorem failures_become_error_strings:
  "(startsWith (type chosen) ''image/'' \<and> readFails chosen = Inl err \<longrightarrow>
      handleImageUpload readFails (Some (chosen # rest)) s =
        Inr (s\<lparr>error := Some ''Failed to process image file.'', editedImage := None\<rparr>))
   \<and> (prompt t \<noteq> [] \<and> originalImage t \<noteq> None \<and> editFails (editCall t) = Inl (Error m) \<longrightarrow>
        handleSubmit editFails t =
          Inr (t\<lparr>error := Some m, isLoading := False, editedImage := None\<rparr>, [editCall t]))
   \<and> (prompt u \<noteq> [] \<and> originalImage u \<noteq> None \<and> editThrows (editCall u) = Inl NotAnError \<longrightarrow>
        handleSubmit editThrows u =
          Inr (u\<lparr>error := Some ''An unknown error occurred.'', isLoading := False,
                 editedImage := None\<rparr>, [editCall u]))
   \<and> error (handleImageUpload_settle (Inl cause) w) = Some ''Failed to process image file.''
   \<and> errorShown (handleImageUpload_settle (Inl cause) w) = Some ''Failed to process image file.''
   \<and> error (handleSubmit_settle (Inl (Error msg)) w) = Some msg
   \<and> errorShown (handleSubmit_settle (Inl (Error msg)) w) = (if msg = [] then None else Some msg)
   \<and> error (handleSubmit_settle (Inl NotAnError) w) = Some ''An unknown error occurred.''
   \<and> errorShown (handleSubmit_settle (Inl NotAnError) w) = Some ''An unknown error occurred.''
   \<and> (\<exists>s'. handleImageUpload reader files v = Inr s')
   \<and> (\<exists>r. handleSubmit service v = Inr r)"
proof -
  have whole: "(startsWith (type chosen) ''image/'' \<and> readFails chosen = Inl err \<longrightarrow>
      handleImageUpload readFails (Some (chosen # rest)) s =
        Inr (s\<lparr>error := Some ''Failed to process image file.'', editedImage := None\<rparr>))
   \<and> (prompt t \<noteq> [] \<and> originalImage t \<noteq> None \<and> editFails (editCall t) = Inl (Error m) \<longrightarrow>
        handleSubmit editFails t =
          Inr (t\<lparr>error := Some m, isLoading := False, editedImage := None\<rparr>, [editCall t]))
   \<and> (prompt u \<noteq> [] \<and> originalImage u \<noteq> None \<and> editThrows (editCall u) = Inl NotAnError \<longrightarrow>
        handleSubmit editThrows u =
          Inr (u\<lparr>error := Some ''An unknown error occurred.'', isLoading := False,
                 editedImage := None\<rparr>, [editCall u]))"
    by (auto simp: handleImageUpload_def handleImageUpload_start_def handleImageUpload_settle_def
          firstFile_def handleSubmit_def handleSubmit_start_def handleSubmit_settle_def)
  have cell: "error (handleImageUpload_settle (Inl cause) w) = Some ''Failed to process image file.''
   \<and> error (handleSubmit_settle (Inl (Error msg)) w) = Some msg
   \<and> error (handleSubmit_settle (Inl NotAnError) w) = Some ''An unknown error occurred.''"
    by (simp add: handleImageUpload_settle_def handleSubmit_settle_def)
  have shown: "errorShown (handleImageUpload_settle (Inl cause) w) = Some ''Failed to process image file.''
   \<and> errorShown (handleSubmit_settle (Inl (Error msg)) w) = (if msg = [] then None else Some msg)
   \<and> errorShown (handleSubmit_settle (Inl NotAnError) w) = Some ''An unknown error occurred.''"
    by (simp add: errorShown_def handleImageUpload_settle_def handleSubmit_settle_def)
  have returns: "(\<exists>s'. handleImageUpload reader files v = Inr s')
   \<and> (\<exists>r. handleSubmit service v = Inr r)"
    by (auto simp: handleImageUpload_def handleSubmit_def split: prod.splits option.splits)
  from whole cell shown returns show ?thesis by blast
qed

theorem failures_become_error_strings_witness:
  "(startsWith (type pngFile) ''image/'' \<and> (\<lambda>f. Inl NotAnError :: ReadOutcome) pngFile = Inl NotAnError)
   \<and> handleImageUpload (\<lambda>f. Inl NotAnError) (Some [pngFile]) readyState =
        Inr (readyState\<lparr>error := Some ''Failed to process image file.'', editedImage := None\<rparr>)
   \<and> (prompt readyState \<noteq> [] \<and> originalImage readyState \<noteq> None)
   \<and> handleSubmit (\<lambda>c. Inl (Error ''quota exceeded'')) readyState =
        Inr (readyState\<lparr>error := Some ''quota exceeded'', isLoading := False, editedImage := None\<rparr>,
             [(''QUJD'', ''image/png'', ''Add a retro filter'')])
   \<and> handleSubmit (\<lambda>c. Inl NotAnError) readyState =
        Inr (readyState\<lparr>error := Some ''An unknown error occurred.'', isLoading := False,
               editedImage := None\<rparr>,
             [(''QUJD'', ''image/png'', ''Add a retro filter'')])
   \<and> errorShown (handleImageUpload_settle (Inl NotAnError) readyState) =
        Some ''Failed to process image file.''
   \<and> errorShown (handleSubmit_settle (Inl (Error ''quota exceeded'')) readyState) =
        Some ''quota exceeded''
   \<and> errorShown (handleSubmit_settle (Inl NotAnError) readyState) =
        Some ''An unknown error occurred.''"
  using failures_become_error_strings
    [where chosen = pngFile and readFails = "\<lambda>f. Inl NotAnError" and err = NotAnError
       and rest = "[]" and s = readyState
       and t = readyState and editFails = "\<lambda>c. Inl (Error ''quota exceeded'')"
       and m = "''quota exceeded''"
       and u = readyState and editThrows = "\<lambda>c. Inl NotAnError"
       and cause = NotAnError and w = readyState and msg = "''quota exceeded''"]
  by (simp add: pngFile_def startsWith_def readyState_def editCall_def catImage_def)

text \<open>
  As the claim is worded, every failure is shown to the user. A remote call that fails
  with an \<open>Error\<close> whose message is empty leaves the empty string in the error cell,
  and the page shows no error.
\<close>

theorem empty_message_counterexample:
  "handleSubmit (\<lambda>c. Inl (Error [])) readyState =
     Inr (\<lparr>originalImage = Some catImage, editedImage = None,
           prompt = ''Add a retro filter'', isLoading = False, error = Some []\<rparr>,
          [(''QUJD'', ''image/png'', ''Add a retro filter'')])
   \<and> errorShown \<lparr>originalImage = Some catImage, editedImage = None,
                  prompt = ''Add a retro filter'', isLoading = False, error = Some []\<rparr> = None"
  by (simp add: handleSubmit_def handleSubmit_start_def handleSubmit_settle_def readyState_def
        editCall_def catImage_def errorShown_def)

text \<open>
  C9. From every state, and whatever the file input holds, the reset handler gives the
  initial state (no original image, no edited image, empty prompt, loading flag false,
  no error) and empties the value of the file input where there is one; so resetting
  twice is resetting once, and the resulting state does not depend on the state reset.
\<close>

theorem handleReset_initial:
  "handleReset (s, fileInputRef) = (initialState, map_option (\<lambda>v. []) fileInputRef)
   \<and> snd (handleReset (s, Some v)) = Some []
   \<and> handleReset (handleReset (s, fileInputRef)) = handleReset (s, fileInputRef)
   \<and> fst (handleReset (s, fileInputRef)) = fst (handleReset (s', fileInputRef'))"
  by (simp add: handleReset_def initialState_def split: option.splits)

section \<open>At most one request in flight\<close>

text \<open>Every event keeps the invariant, hence so does every run.\<close>

lemma fire_oneInFlight:
  assumes "oneInFlight sys" and "fire e sys = Some sys'"
  shows "oneInFlight sys'"
proof (cases e)
  case (UploadChange files)
  with assms show ?thesis
    by (auto simp: oneInFlight_def handleImageUpload_start_def
             split: if_splits prod.splits option.splits)
next
  case (ReadSettles i outcome)
  with assms show ?thesis
    by (auto simp: oneInFlight_def handleImageUpload_settle_def
             split: if_splits sum.splits prod.splits)
next
  case (PromptChange v)
  with assms show ?thesis
    by (auto simp: oneInFlight_def split: if_splits)
next
  case GenerateClick
  with assms show ?thesis
    by (auto simp: oneInFlight_def submit_def handleSubmit_start_def generateDisabled_def
             split: if_splits)
next
  case PromptEnter
  with assms show ?thesis
    by (auto simp: oneInFlight_def submit_def handleSubmit_start_def promptInputDisabled_def
             split: if_splits)
next
  case (EditSettles i outcome)
  with assms show ?thesis
    by (auto simp: oneInFlight_def handleSubmit_settle_def removeAt_def
             split: if_splits sum.splits)
next
  case ResetClick
  with assms show ?thesis
    by (auto simp: oneInFlight_def handleReset_def resetDisabled_def split: if_splits)
qed

lemma run_oneInFlight:
  "oneInFlight sys \<Longrightarrow> run es sys = Some sys' \<Longrightarrow> oneInFlight sys'"
proof (induction es arbitrary: sys)
  case Nil
  then show ?case by simp
next
  case (Cons e es)
  from Cons.prems(2) obtain mid where f: "fire e sys = Some mid" and r: "run es mid = Some sys'"
    by (auto split: option.splits)
  from fire_oneInFlight [OF Cons.prems(1) f] have "oneInFlight mid" .
  from Cons.IH [OF this r] show ?case .
qed

lemma initial_oneInFlight: "oneInFlight initialSystem"
  by (simp add: oneInFlight_def initialSystem_def initialState_def)

text \<open>
  C3. At most one call to the remote service is in flight at any time. In every state
  the system can reach from its initial state, the calls in flight number at most one,
  and there is one only while the loading flag is set; while it is set, the Generate
  button and the prompt input are disabled, so that no submit event can happen. The
  submit handler sets the flag before it issues the call, and clears it once the call
  has settled, whether it has succeeded or failed.
\<close>

theorem at_most_one_request_in_flight:
  assumes "run es initialSystem = Some sys"
  shows "length (pendingEdits sys) \<le> 1
       \<and> (pendingEdits sys \<noteq> [] \<longrightarrow> isLoading (app sys))
       \<and> (isLoading (app sys) \<longrightarrow>
            generateDisabled (app sys) \<and> promptInputDisabled (app sys)
            \<and> fire GenerateClick sys = None \<and> fire PromptEnter sys = None)
       \<and> (\<forall>s s1 call. handleSubmit_start s = (s1, Some call) \<longrightarrow> isLoading s1)
       \<and> (\<forall>outcome s. \<not> isLoading (handleSubmit_settle outcome s))"
proof -
  from run_oneInFlight [OF initial_oneInFlight assms]
  have inv: "length (pendingEdits sys) = (if isLoading (app sys) then 1 else 0)"
    by (simp add: oneInFlight_def)
  have count: "length (pendingEdits sys) \<le> 1"
    using inv by (simp split: if_splits)
  have flag: "pendingEdits sys \<noteq> [] \<longrightarrow> isLoading (app sys)"
    using inv by (auto split: if_splits)
  have disabled: "isLoading (app sys) \<longrightarrow>
      generateDisabled (app sys) \<and> promptInputDisabled (app sys)
      \<and> fire GenerateClick sys = None \<and> fire PromptEnter sys = None"
    by (simp add: generateDisabled_def promptInputDisabled_def)
  have before: "\<forall>s s1 call. handleSubmit_start s = (s1, Some call) \<longrightarrow> isLoading s1"
    by (auto simp: handleSubmit_start_def split: if_splits)
  have after: "\<forall>outcome s. \<not> isLoading (handleSubmit_settle outcome s)"
    by (simp add: handleSubmit_settle_def Let_def)
  from count flag disabled before after show ?thesis by blast
qed

theorem at_most_one_request_in_flight_witness:
  "run uploadThenGenerate initialSystem = Some loadingSystem
   \<and> length (pendingEdits loadingSystem) = 1
   \<and> isLoading (app loadingSystem)
   \<and> fire GenerateClick loadingSystem = None
   \<and> fire PromptEnter loadingSystem = None"
proof -
  have r: "run uploadThenGenerate initialSystem = Some loadingSystem"
    by (simp add: uploadThenGenerate_def initialSystem_def initialState_def loadingSystem_def
          pngFile_def catImage_def uploadRendered_def formRendered_def promptInputDisabled_def
          generateDisabled_def handleImageUpload_start_def handleImageUpload_settle_def
          firstFile_def startsWith_def removeAt_def submit_def handleSubmit_start_def editCall_def)
  from at_most_one_request_in_flight [OF r] r show ?thesis
    by (simp add: loadingSystem_def)
qed

section \<open>A successful submit\<close>

text \<open>Every event keeps the second invariant too; and a call can settle only in a
  state that has a call in flight, where therefore the loading flag is set and there is
  an original image.\<close>

lemma fire_loadingHasImage:
  assumes "loadingHasImage sys" and "fire e sys = Some sys'"
  shows "loadingHasImage sys'"
proof (cases e)
  case (UploadChange files)
  with assms show ?thesis
    by (auto simp: loadingHasImage_def handleImageUpload_start_def
             split: if_splits prod.splits option.splits)
next
  case (ReadSettles i outcome)
  with assms show ?thesis
    by (auto simp: loadingHasImage_def handleImageUpload_settle_def
             split: if_splits sum.splits prod.splits)
next
  case (PromptChange v)
  with assms show ?thesis
    by (auto simp: loadingHasImage_def split: if_splits)
next
  case GenerateClick
  with assms show ?thesis
    by (auto simp: loadingHasImage_def submit_def handleSubmit_start_def split: if_splits)
next
  case PromptEnter
  with assms show ?thesis
    by (auto simp: loadingHasImage_def submit_def handleSubmit_start_def split: if_splits)
next
  case (EditSettles i outcome)
  with assms show ?thesis
    by (auto simp: loadingHasImage_def handleSubmit_settle_def split: if_splits sum.splits)
next
  case ResetClick
  with assms show ?thesis
    by (auto simp: loadingHasImage_def handleReset_def split: if_splits)
qed

lemma run_loadingHasImage:
  "loadingHasImage sys \<Longrightarrow> run es sys = Some sys' \<Longrightarrow> loadingHasImage sys'"
proof (induction es arbitrary: sys)
  case Nil
  then show ?case by simp
next
  case (Cons e es)
  from Cons.prems(2) obtain mid where f: "fire e sys = Some mid" and r: "run es mid = Some sys'"
    by (auto split: option.splits)
  from fire_loadingHasImage [OF Cons.prems(1) f] have "loadingHasImage mid" .
  from Cons.IH [OF this r] show ?case .
qed

lemma initial_loadingHasImage: "loadingHasImage initialSystem"
  by (simp add: loadingHasImage_def initialSystem_def initialState_def)

lemma settle_in_reachable:
  assumes r: "run es initialSystem = Some sys"
    and f: "fire (EditSettles i (Inr b)) sys = Some sys'"
  shows "app sys' = (app sys)\<lparr>editedImage := Some (''data:image/png;base64,'' @ b),
                               isLoading := False\<rparr>
       \<and> originalImage (app sys) \<noteq> None"
proof -
  from f have i: "i < length (pendingEdits sys)" by (simp split: if_splits)
  from run_oneInFlight [OF initial_oneInFlight r] i have l: "isLoading (app sys)"
    by (auto simp: oneInFlight_def split: if_splits)
  from run_loadingHasImage [OF initial_loadingHasImage r] l
  have o: "originalImage (app sys) \<noteq> None" by (simp add: loadingHasImage_def)
  from f i have "app sys' = handleSubmit_settle (Inr b) (app sys)" by auto
  then show ?thesis using o by (simp add: handleSubmit_settle_def)
qed

text \<open>
  C6. For every successful submit (the prompt is not empty, there is an original image,
  the remote call resolves to a base64 string): before the call the handler clears the
  error and the edited image and sets the loading flag; when the call has resolved, in
  whatever state the system has reached by then, the handler sets the edited image to
  'data:image/png;base64,' followed by the returned string and the loading flag to
  false, and leaves the error as it finds it, and the "Edited Image" pane then shows that
  image. When nothing else happens between the call and its return, the error therefore
  ends as null.
\<close>

theorem handleSubmit_success:
  "(prompt s \<noteq> [] \<and> originalImage s \<noteq> None \<longrightarrow>
      handleSubmit_start s =
        (s\<lparr>error := None, isLoading := True, editedImage := None\<rparr>, Some (editCall s)))
   \<and> handleSubmit_settle (Inr newImage) t =
        t\<lparr>editedImage := Some (''data:image/png;base64,'' @ newImage), isLoading := False\<rparr>
   \<and> (prompt s \<noteq> [] \<and> originalImage s \<noteq> None
        \<and> editImageWithGemini (editCall s) = Inr newImage \<longrightarrow>
        handleSubmit editImageWithGemini s =
          Inr (s\<lparr>error := None, isLoading := False,
                 editedImage := Some (''data:image/png;base64,'' @ newImage)\<rparr>,
               [editCall s]))
   \<and> (run es initialSystem = Some sys
        \<and> fire (EditSettles i (Inr newImage)) sys = Some sys' \<longrightarrow>
        editedImage (app sys') = Some (''data:image/png;base64,'' @ newImage)
        \<and> isLoading (app sys') = False
        \<and> error (app sys') = error (app sys)
        \<and> editedPane (app sys') = Some (Img (''data:image/png;base64,'' @ newImage)))"
proof -
  have start: "prompt s \<noteq> [] \<and> originalImage s \<noteq> None \<longrightarrow>
      handleSubmit_start s =
        (s\<lparr>error := None, isLoading := True, editedImage := None\<rparr>, Some (editCall s))"
    by (simp add: handleSubmit_start_def)
  have settle: "handleSubmit_settle (Inr newImage) t =
        t\<lparr>editedImage := Some (''data:image/png;base64,'' @ newImage), isLoading := False\<rparr>"
    by (simp add: handleSubmit_settle_def)
  have whole: "prompt s \<noteq> [] \<and> originalImage s \<noteq> None
        \<and> editImageWithGemini (editCall s) = Inr newImage \<longrightarrow>
        handleSubmit editImageWithGemini s =
          Inr (s\<lparr>error := None, isLoading := False,
                 editedImage := Some (''data:image/png;base64,'' @ newImage)\<rparr>,
               [editCall s])"
    by (simp add: handleSubmit_def handleSubmit_start_def handleSubmit_settle_def)
  have sysl: "run es initialSystem = Some sys
        \<and> fire (EditSettles i (Inr newImage)) sys = Some sys' \<longrightarrow>
        editedImage (app sys') = Some (''data:image/png;base64,'' @ newImage)
        \<and> isLoading (app sys') = False
        \<and> error (app sys') = error (app sys)
        \<and> editedPane (app sys') = Some (Img (''data:image/png;base64,'' @ newImage))"
  proof
    assume a: "run es initialSystem = Some sys
        \<and> fire (EditSettles i (Inr newImage)) sys = Some sys'"
    from settle_in_reachable [of es sys i newImage sys'] a
    have e: "app sys' = (app sys)\<lparr>editedImage := Some (''data:image/png;base64,'' @ newImage),
                               isLoading := False\<rparr>"
      and o: "originalImage (app sys) \<noteq> None" by simp_all
    from e o show "editedImage (app sys') = Some (''data:image/png;base64,'' @ newImage)
        \<and> isLoading (app sys') = False
        \<and> error (app sys') = error (app sys)
        \<and> editedPane (app sys') = Some (Img (''data:image/png;base64,'' @ newImage))"
      by (simp add: editedPane_def ImageDisplay_def)
  qed
  from start settle whole sysl show ?thesis by blast
qed

theorem handleSubmit_success_witness:
  "(prompt readyState \<noteq> [] \<and> originalImage readyState \<noteq> None)
   \<and> (\<lambda>c. Inr ''bmV3'' :: EditOutcome) (editCall readyState) = Inr ''bmV3''
   \<and> handleSubmit (\<lambda>c. Inr ''bmV3'') readyState =
        Inr (\<lparr>originalImage = Some catImage, editedImage = Some ''data:image/png;base64,bmV3'',
              prompt = ''Add a retro filter'', isLoading = False, error = None\<rparr>,
             [(''QUJD'', ''image/png'', ''Add a retro filter'')])
   \<and> run uploadThenGenerate initialSystem = Some loadingSystem
   \<and> fire (EditSettles 0 (Inr ''bmV3'')) loadingSystem =
        Some \<lparr>app = \<lparr>originalImage = Some catImage,
                     editedImage = Some ''data:image/png;base64,bmV3'',
                     prompt = ''Add a retro filter'', isLoading = False, error = None\<rparr>,
              pendingReads = [], pendingEdits = []\<rparr>
   \<and> editedPane \<lparr>originalImage = Some catImage,
                   editedImage = Some ''data:image/png;base64,bmV3'',
                   prompt = ''Add a retro filter'', isLoading = False, error = None\<rparr>
       = Some (Img ''data:image/png;base64,bmV3'')"
proof -
  have r: "run uploadThenGenerate initialSystem = Some loadingSystem"
    by (simp add: uploadThenGenerate_def initialSystem_def initialState_def loadingSystem_def
          pngFile_def catImage_def uploadRendered_def formRendered_def promptInputDisabled_def
          generateDisabled_def handleImageUpload_start_def handleImageUpload_settle_def
          firstFile_def startsWith_def removeAt_def submit_def handleSubmit_start_def editCall_def)
  have f: "fire (EditSettles 0 (Inr ''bmV3'')) loadingSystem =
        Some \<lparr>app = \<lparr>originalImage = Some catImage,
                     editedImage = Some ''data:image/png;base64,bmV3'',
                     prompt = ''Add a retro filter'', isLoading = False, error = None\<rparr>,
              pendingReads = [], pendingEdits = []\<rparr>"
    by (simp add: loadingSystem_def handleSubmit_settle_def removeAt_def)
  from handleSubmit_success
    [where s = readyState and editImageWithGemini = "\<lambda>c. Inr ''bmV3''"
       and newImage = "''bmV3''" and es = uploadThenGenerate and sys = loadingSystem
       and i = 0
       and sys' = "\<lparr>app = \<lparr>originalImage = Some catImage,
                     editedImage = Some ''data:image/png;base64,bmV3'',
                     prompt = ''Add a retro filter'', isLoading = False, error = None\<rparr>,
              pendingReads = [], pendingEdits = []\<rparr>"]
    r f
  show ?thesis by (simp add: readyState_def editCall_def catImage_def)
qed

text \<open>
  As the claim is worded, the error is null after every successful submit. It is not:
  a read started earlier may fail while the call is in flight, and its message stays.
\<close>

theorem late_read_failure_counterexample:
  "run lateReadFailure initialSystem =
     Some \<lparr>app = \<lparr>originalImage = Some \<lparr>data = ''REVG'', mimeType = ''image/jpeg''\<rparr>,
                  editedImage = Some ''data:image/png;base64,bmV3'',
                  prompt = ''Add a retro filter'', isLoading = False,
                  error = Some ''Failed to process image file.''\<rparr>,
           pendingReads = [], pendingEdits = []\<rparr>
   \<and> error \<lparr>originalImage = Some \<lparr>data = ''REVG'', mimeType = ''image/jpeg''\<rparr>,
             editedImage = Some ''data:image/png;base64,bmV3'',
             prompt = ''Add a retro filter'', isLoading = False,
             error = Some ''Failed to process image file.''\<rparr> \<noteq> None"
  by (simp add: lateReadFailure_def initialSystem_def initialState_def
        pngFile_def jpgFile_def uploadRendered_def formRendered_def promptInputDisabled_def
        generateDisabled_def handleImageUpload_start_def handleImageUpload_settle_def
        firstFile_def startsWith_def removeAt_def submit_def handleSubmit_start_def
        handleSubmit_settle_def editCall_def)

end
